theory Spec2Isabelle
  imports Main "HOL-Library.Sublist"
begin

section \<open>DSQL connectivity test: a model of \<^verbatim>\<open>src/python/main.py\<close>\<close>

text \<open>
  The script reads four environment variables, validates two of them, opens one
  database connection through psycopg2, runs one query, prints the answer and maps
  every exception to a message on the error stream and exit status 1.

  Strings are \<^typ>\<open>string\<close>. The only string operations of the script that look inside
  a value are the hostname regular expression, whose class is ASCII, and \<^verbatim>\<open>len\<close>, which is
  applied only after the expression has matched; on such values bytes and code points
  coincide.
\<close>

subsection \<open>Exceptions\<close>

text \<open>
  The classes that the handlers of \<^verbatim>\<open>main\<close> tell apart. \<open>Psycopg2Error\<close> stands for an
  instance of \<^verbatim>\<open>psycopg2.Error\<close> that is not an \<^verbatim>\<open>OperationalError\<close>; \<open>OtherException\<close>
  for any other subclass of \<^verbatim>\<open>Exception\<close> that is not a \<^verbatim>\<open>ValueError\<close>. The string is
  what \<^verbatim>\<open>str(e)\<close> gives.
\<close>

datatype exn_class =
  ValueError | OperationalError | Psycopg2Error | TypeError | KeyError | OtherException

datatype exn = Exn exn_class string

subsection \<open>Characters and small string helpers\<close>

abbreviation NL :: char where
  "NL \<equiv> CHR 0x0A"

abbreviation QUOTE :: char where
  "QUOTE \<equiv> CHR 0x27"

definition in_range :: "char \<Rightarrow> char \<Rightarrow> char \<Rightarrow> bool" where
  "in_range lo hi c = ((of_char lo :: nat) \<le> of_char c \<and> (of_char c :: nat) \<le> of_char hi)"

text \<open>The character class \<^verbatim>\<open>[a-zA-Z0-9.-]\<close>.\<close>

definition hostname_char :: "char \<Rightarrow> bool" where
  "hostname_char c =
     (in_range (CHR ''a'') (CHR ''z'') c \<or> in_range (CHR ''A'') (CHR ''Z'') c \<or>
      in_range (CHR ''0'') (CHR ''9'') c \<or> c = CHR ''.'' \<or> c = CHR ''-'')"

text \<open>\<^verbatim>\<open>str.lower\<close>, on the ASCII letters (it is applied to the four variable names only).\<close>

definition lower_char :: "char \<Rightarrow> char" where
  "lower_char c =
     (if in_range (CHR ''A'') (CHR ''Z'') c then char_of (of_char c + (32::nat)) else c)"

definition lower :: "string \<Rightarrow> string" where
  "lower s = map lower_char s"

text \<open>\<^verbatim>\<open>repr\<close> of a string without quotes or escapes, and \<^verbatim>\<open>sep.join(xs)\<close>.\<close>

definition py_repr :: "string \<Rightarrow> string" where
  "py_repr s = QUOTE # s @ [QUOTE]"

fun join :: "string \<Rightarrow> string list \<Rightarrow> string" where
  "join sep [] = []"
| "join sep [x] = x"
| "join sep (x # y # ys) = x @ sep @ join sep (y # ys)"

subsection \<open>\<^verbatim>\<open>validate_hostname\<close>\<close>

text \<open>
  \<^verbatim>\<open>re.match(r'^[a-zA-Z0-9.-]+$', hostname)\<close>: the match starts at the first character,
  \<^verbatim>\<open>+\<close> takes the longest run of class characters (giving characters back cannot help,
  since what would follow is a class character), and Python's \<^verbatim>\<open>$\<close> without
  \<^verbatim>\<open>re.MULTILINE\<close> holds at the end of the string and also just before a newline that
  is the last character of the string.
\<close>

definition re_match_hostname :: "string \<Rightarrow> bool" where
  "re_match_hostname s =
     (let body = takeWhile hostname_char s; rest = dropWhile hostname_char s
      in body \<noteq> [] \<and> (rest = [] \<or> rest = [NL]))"

definition validate_hostname :: "string \<Rightarrow> exn + string" where
  "validate_hostname hostname =
     (if \<not> re_match_hostname hostname
      then Inl (Exn ValueError (''Invalid hostname format: '' @ hostname))
      else if length hostname > 253
      then Inl (Exn ValueError ''Hostname too long'')
      else Inr hostname)"

subsection \<open>\<^verbatim>\<open>validate_ssl_mode\<close>\<close>

definition valid_modes :: "string set" where
  "valid_modes = {''require'', ''prefer'', ''allow'', ''disable''}"

text \<open>
  The message interpolates the set itself. The order in which Python lists the elements
  of a set of strings changes from one process to the next (string hashing is salted), so
  the order of iteration \<open>order\<close> is a parameter of the model; membership does not
  depend on it.
\<close>

definition set_repr :: "string list \<Rightarrow> string" where
  "set_repr order = ''{'' @ join '', '' (map py_repr order) @ ''}''"

definition validate_ssl_mode :: "string list \<Rightarrow> string \<Rightarrow> exn + string" where
  "validate_ssl_mode order sslmode =
     (if sslmode \<notin> valid_modes
      then Inl (Exn ValueError
             (''Invalid SSL mode: '' @ sslmode @ ''. Must be one of '' @ set_repr order))
      else Inr sslmode)"

subsection \<open>\<^verbatim>\<open>get_connection_config\<close>\<close>

type_synonym env = "string \<rightharpoonup> string"

record connection_params =
  host :: string
  hostaddr :: string
  port :: int
  database :: string
  user :: string
  password :: string
  sslmode :: string
  connect_timeout :: int

definition required_vars :: "string list" where
  "required_vars = [''HOSTNAME'', ''PGHOSTADDR'', ''PGPASSWORD'', ''PGSSLMODE'']"

definition not_set :: "string \<Rightarrow> exn" where
  "not_set var = Exn ValueError (''Required environment variable '' @ var @ '' is not set'')"

text \<open>
  The loop over \<^verbatim>\<open>required_vars\<close>. \<^verbatim>\<open>os.environ.get(var)\<close> is \<^verbatim>\<open>None\<close> for an absent
  variable, and \<^verbatim>\<open>not value\<close> holds for \<^verbatim>\<open>None\<close> and for the empty string.
\<close>

fun read_required :: "env \<Rightarrow> string list \<Rightarrow> (string \<rightharpoonup> string) \<Rightarrow> exn + (string \<rightharpoonup> string)" where
  "read_required environ [] config = Inr config"
| "read_required environ (var # vars) config =
     (case environ var of
        None \<Rightarrow> Inl (not_set var)
      | Some v \<Rightarrow>
          if v = [] then Inl (not_set var)
          else read_required environ vars (config(lower var \<mapsto> v)))"

text \<open>A subscript of a dictionary raises \<^verbatim>\<open>KeyError\<close> on a missing key.\<close>

definition getitem :: "(string \<rightharpoonup> string) \<Rightarrow> string \<Rightarrow> exn + string" where
  "getitem d k = (case d k of None \<Rightarrow> Inl (Exn KeyError (py_repr k)) | Some v \<Rightarrow> Inr v)"

definition build_params :: "(string \<rightharpoonup> string) \<Rightarrow> exn + (connection_params \<times> string)" where
  "build_params config =
     (case getitem config ''hostname'' of Inl e \<Rightarrow> Inl e | Inr h \<Rightarrow>
     (case getitem config ''pghostaddr'' of Inl e \<Rightarrow> Inl e | Inr a \<Rightarrow>
     (case getitem config ''pgpassword'' of Inl e \<Rightarrow> Inl e | Inr p \<Rightarrow>
     (case getitem config ''pgsslmode'' of Inl e \<Rightarrow> Inl e | Inr m \<Rightarrow>
     (case getitem config ''hostname'' of Inl e \<Rightarrow> Inl e | Inr hostname \<Rightarrow>
        Inr (\<lparr>host = h, hostaddr = a, port = 5432, database = ''postgres'',
              user = ''admin'', password = p, sslmode = m, connect_timeout = 30\<rparr>,
             hostname))))))"

definition get_connection_config :: "string list \<Rightarrow> env \<Rightarrow> exn + (connection_params \<times> string)" where
  "get_connection_config order environ =
     (case read_required environ required_vars Map.empty of Inl e \<Rightarrow> Inl e | Inr config \<Rightarrow>
     (case getitem config ''hostname'' of Inl e \<Rightarrow> Inl e | Inr h \<Rightarrow>
     (case validate_hostname h of Inl e \<Rightarrow> Inl e | Inr h' \<Rightarrow>
     (case getitem (config(''hostname'' \<mapsto> h')) ''pgsslmode'' of Inl e \<Rightarrow> Inl e | Inr m \<Rightarrow>
     (case validate_ssl_mode order m of Inl e \<Rightarrow> Inl e | Inr m' \<Rightarrow>
        build_params (config(''hostname'' \<mapsto> h', ''pgsslmode'' \<mapsto> m')))))))"

subsection \<open>What a run depends on besides the environment\<close>

text \<open>
  psycopg2 is not part of the script. Each call that the script makes into it happens at
  most once in a run, so one run of the library is one outcome per call: \<open>None\<close> when
  the call returns, \<open>Some e\<close> when it raises \<open>e\<close>. \<^verbatim>\<open>fetchone\<close> returns a row, or
  \<^verbatim>\<open>None\<close> when the result has no row. The two \<^verbatim>\<open>with\<close> statements call
  \<^verbatim>\<open>__exit__\<close> of the cursor (which closes it) and of the connection (which commits, or
  rolls back when the block raised); neither swallows the exception of its block.
  The record \<open>world\<close> holds these outcomes, and the order in which this process
  iterates over the set of SSL modes.
\<close>

record conn_info_row =
  row_database :: string
  row_user :: string
  row_server_version :: string

record world =
  set_order :: "string list"
  connect_result :: "exn option"
  cursor_result :: "exn option"
  execute_result :: "exn option"
  fetchone_result :: "exn + conn_info_row option"
  cursor_exit :: "exn option"
  conn_exit :: "exn option"

datatype lib_call =
  Connect connection_params | Cursor | Execute string | Fetchone | CursorExit | ConnExit

text \<open>What a run leaves behind: the arguments of the \<^verbatim>\<open>print\<close> calls on each stream, in
  order, and the calls made into the library.\<close>

record run_state =
  stdout :: "string list"
  stderr :: "string list"
  calls :: "lib_call list"

definition print_out :: "string \<Rightarrow> run_state \<Rightarrow> run_state" where
  "print_out line s = s\<lparr>stdout := stdout s @ [line]\<rparr>"

definition print_err :: "string \<Rightarrow> run_state \<Rightarrow> run_state" where
  "print_err line s = s\<lparr>stderr := stderr s @ [line]\<rparr>"

definition call :: "lib_call \<Rightarrow> run_state \<Rightarrow> run_state" where
  "call c s = s\<lparr>calls := calls s @ [c]\<rparr>"

text \<open>
  Leaving a \<^verbatim>\<open>with\<close> block: \<^verbatim>\<open>__exit__\<close> runs whether the block returned or raised; an
  exception of \<^verbatim>\<open>__exit__\<close> replaces that of the block.
\<close>

definition with_exit :: "lib_call \<Rightarrow> exn option \<Rightarrow> run_state \<times> (exn + unit) \<Rightarrow> run_state \<times> (exn + unit)" where
  "with_exit c ex body =
     (case ex of
        Some e \<Rightarrow> (call c (fst body), Inl e)
      | None \<Rightarrow> (call c (fst body), snd body))"

subsection \<open>\<^verbatim>\<open>execute_connection_info_query\<close> and \<^verbatim>\<open>display_connection_info\<close>\<close>

definition query :: string where
  "query = NL # ''    SELECT '' @ NL # ''        current_database() as database,'' @
           NL # ''        current_user as user,'' @
           NL # ''        version() as server_version;'' @ NL # ''    ''"

definition execute_connection_info_query :: "world \<Rightarrow> run_state \<Rightarrow> run_state \<times> (exn + conn_info_row option)" where
  "execute_connection_info_query lib s =
     (case execute_result lib of
        Some e \<Rightarrow> (call (Execute query) s, Inl e)
      | None \<Rightarrow> (call Fetchone (call (Execute query) s), fetchone_result lib))"

text \<open>
  Each f-string is evaluated before its \<^verbatim>\<open>print\<close>: with \<^verbatim>\<open>conn_info = None\<close> the
  subscript \<^verbatim>\<open>conn_info['database']\<close> raises \<^verbatim>\<open>TypeError\<close> after the heading and the
  rule have been printed. A row of the fixed query has the three columns.
\<close>

definition none_subscript :: exn where
  "none_subscript = Exn TypeError (QUOTE # ''NoneType'' @ QUOTE # '' object is not subscriptable'')"

definition display_connection_info :: "conn_info_row option \<Rightarrow> string \<Rightarrow> run_state \<Rightarrow> run_state \<times> (exn + unit)" where
  "display_connection_info conn_info hostname s =
     (let s = print_out (NL # ''Connection Information:'') s;
          s = print_out (replicate 30 (CHR ''-'')) s
      in case conn_info of
           None \<Rightarrow> (s, Inl none_subscript)
         | Some r \<Rightarrow>
            (let s = print_out (''Database: '' @ row_database r) s;
                 s = print_out (''User: '' @ row_user r) s;
                 s = print_out (''Host: 127.0.0.1 (via tunnel to '' @ hostname @ '')'') s;
                 s = print_out ''Port: 5432'' s;
                 s = print_out ''SSL Status: SSL connection (required by DSQL)'' s;
                 s = print_out (''Server Version: '' @ row_server_version r) s
             in (s, Inr ())))"

subsection \<open>\<^verbatim>\<open>main\<close>\<close>

text \<open>The body of the inner \<^verbatim>\<open>with\<close>, of the outer \<^verbatim>\<open>with\<close>, and of the \<^verbatim>\<open>try\<close>.\<close>

definition cursor_block :: "world \<Rightarrow> string \<Rightarrow> run_state \<Rightarrow> run_state \<times> (exn + unit)" where
  "cursor_block lib hostname s =
     (let s = print_out ''Connection established successfully!'' s;
          s = print_out ''Executing connection info query...'' s;
          r = execute_connection_info_query lib s
      in case snd r of
           Inl e \<Rightarrow> (fst r, Inl e)
         | Inr conn_info \<Rightarrow> display_connection_info conn_info hostname (fst r))"

definition conn_block :: "world \<Rightarrow> string \<Rightarrow> run_state \<Rightarrow> run_state \<times> (exn + unit)" where
  "conn_block lib hostname s =
     (case cursor_result lib of
        Some e \<Rightarrow> (call Cursor s, Inl e)
      | None \<Rightarrow> with_exit CursorExit (cursor_exit lib) (cursor_block lib hostname (call Cursor s)))"

definition try_block :: "env \<Rightarrow> world \<Rightarrow> run_state \<Rightarrow> run_state \<times> (exn + unit)" where
  "try_block environ lib s =
     (let s = print_out ''Reading environment variables...'' s
      in case get_connection_config (set_order lib) environ of
           Inl e \<Rightarrow> (s, Inl e)
         | Inr (connection_params, hostname) \<Rightarrow>
            (let s = print_out (''Connecting to DSQL cluster: '' @ hostname) s;
                 s = print_out (''Via tunnel: '' @ hostaddr connection_params @ '':5432'') s;
                 s = print_out (NL # ''Establishing connection...'') s;
                 s = call (Connect connection_params) s
             in case connect_result lib of
                  Some e \<Rightarrow> (s, Inl e)
                | None \<Rightarrow>
                   (let r = with_exit ConnExit (conn_exit lib) (conn_block lib hostname s)
                    in case snd r of
                         Inl e \<Rightarrow> (fst r, Inl e)
                       | Inr u \<Rightarrow>
                          (print_out ''DSQL connectivity test completed.''
                             (print_out (NL # ''Connection closed successfully!'') (fst r)),
                           Inr ()))))"

text \<open>The \<^verbatim>\<open>except\<close> clauses, in the order of the source; each ends in \<^verbatim>\<open>sys.exit(1)\<close>.\<close>

fun handler :: "exn \<Rightarrow> run_state \<Rightarrow> run_state" where
  "handler (Exn ValueError e) s =
     print_err ''- PGSSLMODE: SSL mode (require)''
    (print_err ''- PGPASSWORD: Generated auth token''
    (print_err ''- PGHOSTADDR: Tunnel localhost address (127.0.0.1)''
    (print_err ''- HOSTNAME: DSQL cluster private DNS endpoint''
    (print_err (NL # ''Required environment variables:'')
    (print_err (''Configuration Error: '' @ e) s)))))"
| "handler (Exn OperationalError e) s =
     print_err ''- Check that auth token is valid and not expired''
    (print_err ''- Verify tunnel is forwarding to 127.0.0.1:5432''
    (print_err ''- Ensure SSH or SSM tunnel is active''
    (print_err (NL # ''Troubleshooting tips:'')
    (print_err (''Connection Error: '' @ e) s))))"
| "handler (Exn Psycopg2Error e) s = print_err (''Database Error: '' @ e) s"
| "handler (Exn c e) s = print_err (''Unexpected Error: '' @ e) s"

definition initial :: run_state where
  "initial = \<lparr>stdout = [], stderr = [], calls = []\<rparr>"

text \<open>A run: what was printed and called, and the exit status of the process.\<close>

definition main :: "env \<Rightarrow> world \<Rightarrow> run_state \<times> int" where
  "main environ lib =
     (let s = print_out ''AWS DSQL Connectivity Test - Python Implementation'' initial;
          s = print_out (replicate 50 (CHR ''='')) s;
          r = try_block environ lib s
      in case snd r of
           Inr u \<Rightarrow> (fst r, 0)
         | Inl e \<Rightarrow> (handler e (fst r), 1))"

subsection \<open>Vocabulary of the statements\<close>

text \<open>A variable that \<^verbatim>\<open>get_connection_config\<close> treats as not set: absent, or empty.\<close>

definition is_missing :: "env \<Rightarrow> string \<Rightarrow> bool" where
  "is_missing environ var = (environ var = None \<or> environ var = Some [])"

text \<open>The eight lines that \<^verbatim>\<open>display_connection_info\<close> prints for a row.\<close>

definition info_block :: "conn_info_row \<Rightarrow> string \<Rightarrow> string list" where
  "info_block r hostname =
     [NL # ''Connection Information:'', replicate 30 (CHR ''-''),
      ''Database: '' @ row_database r, ''User: '' @ row_user r,
      ''Host: 127.0.0.1 (via tunnel to '' @ hostname @ '')'', ''Port: 5432'',
      ''SSL Status: SSL connection (required by DSQL)'',
      ''Server Version: '' @ row_server_version r]"

text \<open>
  The environment and the row of the example run: a tunnel on 127.0.0.1 to
  \<^verbatim>\<open>db.internal.example\<close>, and a world in which every call into the library returns.
\<close>

definition example_environ :: env where
  "example_environ =
     [''HOSTNAME'' \<mapsto> ''db.internal.example'', ''PGHOSTADDR'' \<mapsto> ''127.0.0.1'',
      ''PGPASSWORD'' \<mapsto> ''token123'', ''PGSSLMODE'' \<mapsto> ''require'']"

definition example_row :: conn_info_row where
  "example_row =
     \<lparr>row_database = ''postgres'', row_user = ''admin'', row_server_version = ''PostgreSQL 15.0''\<rparr>"

definition example_world :: world where
  "example_world =
     \<lparr>set_order = [''require'', ''prefer'', ''allow'', ''disable''],
      connect_result = None, cursor_result = None, execute_result = None,
      fetchone_result = Inr (Some example_row), cursor_exit = None, conn_exit = None\<rparr>"

definition example_params :: connection_params where
  "example_params =
     \<lparr>host = ''db.internal.example'', hostaddr = ''127.0.0.1'', port = 5432,
      database = ''postgres'', user = ''admin'', password = ''token123'',
      sslmode = ''require'', connect_timeout = 30\<rparr>"

section \<open>Properties\<close>

subsection \<open>Evaluation helpers\<close>

lemma lower_HOSTNAME: "lower ''HOSTNAME'' = ''hostname''"
  unfolding lower_def by code_simp

lemma lower_PGHOSTADDR: "lower ''PGHOSTADDR'' = ''pghostaddr''"
  unfolding lower_def by code_simp

lemma lower_PGPASSWORD: "lower ''PGPASSWORD'' = ''pgpassword''"
  unfolding lower_def by code_simp

lemma lower_PGSSLMODE: "lower ''PGSSLMODE'' = ''pgsslmode''"
  unfolding lower_def by code_simp

lemmas lower_vars = lower_HOSTNAME lower_PGHOSTADDR lower_PGPASSWORD lower_PGSSLMODE

subsection \<open>The configuration loader\<close>

lemma read_required_missing:
  "find (is_missing environ) vars = Some v \<Longrightarrow> read_required environ vars config = Inl (not_set v)"
  by (induction vars arbitrary: config) (auto simp: is_missing_def split: option.splits if_splits)

lemma read_required_present:
  assumes "environ ''HOSTNAME'' = Some h" "h \<noteq> []"
    and "environ ''PGHOSTADDR'' = Some a" "a \<noteq> []"
    and "environ ''PGPASSWORD'' = Some p" "p \<noteq> []"
    and "environ ''PGSSLMODE'' = Some m" "m \<noteq> []"
  shows "read_required environ required_vars Map.empty =
           Inr [''hostname'' \<mapsto> h, ''pghostaddr'' \<mapsto> a, ''pgpassword'' \<mapsto> p, ''pgsslmode'' \<mapsto> m]"
  using assms by (simp add: required_vars_def lower_vars)

lemma validate_hostname_cases:
  "validate_hostname h = Inr h' \<Longrightarrow> h' = h"
  by (auto simp: validate_hostname_def split: if_splits)

lemma validate_ssl_mode_cases:
  "validate_ssl_mode order m = Inr m' \<Longrightarrow> m' = m"
  by (auto simp: validate_ssl_mode_def split: if_splits)

lemma get_connection_config_present:
  assumes "environ ''HOSTNAME'' = Some h" "h \<noteq> []"
    and "environ ''PGHOSTADDR'' = Some a" "a \<noteq> []"
    and "environ ''PGPASSWORD'' = Some p" "p \<noteq> []"
    and "environ ''PGSSLMODE'' = Some m" "m \<noteq> []"
  shows "get_connection_config order environ =
     (case validate_hostname h of Inl e \<Rightarrow> Inl e | Inr h' \<Rightarrow>
     (case validate_ssl_mode order m of Inl e \<Rightarrow> Inl e | Inr m' \<Rightarrow>
        Inr (\<lparr>host = h, hostaddr = a, port = 5432, database = ''postgres'',
              user = ''admin'', password = p, sslmode = m, connect_timeout = 30\<rparr>, h)))"
  unfolding get_connection_config_def read_required_present[OF assms]
  by (auto simp: getitem_def build_params_def split: sum.splits dest: validate_hostname_cases validate_ssl_mode_cases)

lemma find_missing_props:
  "find (is_missing environ) vars = Some u \<Longrightarrow> u \<in> set vars \<and> is_missing environ u"
  by (induction vars) (auto split: if_splits)

lemma find_missing_exists:
  "v \<in> set vars \<Longrightarrow> is_missing environ v \<Longrightarrow> \<exists>u. find (is_missing environ) vars = Some u"
  by (cases "find (is_missing environ) vars") (auto simp: find_None_iff)

lemma get_connection_config_missing:
  "find (is_missing environ) required_vars = Some u \<Longrightarrow>
   get_connection_config order environ = Inl (not_set u)"
  by (simp add: get_connection_config_def read_required_missing)

lemma get_connection_config_error_class:
  "get_connection_config order environ = Inl e \<Longrightarrow> \<exists>msg. e = Exn ValueError msg"
proof (cases "find (is_missing environ) required_vars")
  case (Some u)
  assume "get_connection_config order environ = Inl e"
  with Some show ?thesis by (auto simp add: get_connection_config_missing not_set_def)
next
  case None
  assume e: "get_connection_config order environ = Inl e"
  from None have "\<forall>v \<in> set required_vars. \<not> is_missing environ v"
    by (simp add: find_None_iff)
  then obtain h a p m where
    "environ ''HOSTNAME'' = Some h" "h \<noteq> []" "environ ''PGHOSTADDR'' = Some a" "a \<noteq> []"
    "environ ''PGPASSWORD'' = Some p" "p \<noteq> []" "environ ''PGSSLMODE'' = Some m" "m \<noteq> []"
    by (auto simp: required_vars_def is_missing_def)
  from get_connection_config_present [OF this, of order] e show ?thesis
    by (auto simp: validate_hostname_def validate_ssl_mode_def split: if_splits)
qed

subsection \<open>The hostname expression\<close>

lemma not_hostname_char_NL: "\<not> hostname_char NL"
  by (simp add: hostname_char_def in_range_def)

lemma re_match_hostname_iff:
  "re_match_hostname s \<longleftrightarrow>
     (\<exists>b. b \<noteq> [] \<and> list_all hostname_char b \<and> (s = b \<or> s = b @ [NL]))"
proof
  assume m: "re_match_hostname s"
  let ?b = "takeWhile hostname_char s"
  have "s = ?b @ dropWhile hostname_char s" by simp
  moreover have "list_all hostname_char ?b"
    by (simp add: list_all_iff) (meson set_takeWhileD)
  ultimately show "\<exists>b. b \<noteq> [] \<and> list_all hostname_char b \<and> (s = b \<or> s = b @ [NL])"
    using m unfolding re_match_hostname_def Let_def
    by (metis append_Nil2)
next
  assume "\<exists>b. b \<noteq> [] \<and> list_all hostname_char b \<and> (s = b \<or> s = b @ [NL])"
  then obtain b where b: "b \<noteq> []" "list_all hostname_char b" "s = b \<or> s = b @ [NL]"
    by blast
  have tw: "takeWhile hostname_char b = b" "dropWhile hostname_char b = []"
    using b(2) by (simp_all add: list_all_iff)
  from b(3) show "re_match_hostname s"
  proof
    assume "s = b"
    then show ?thesis using b(1) by (simp add: re_match_hostname_def tw)
  next
    assume s: "s = b @ [NL]"
    have "takeWhile hostname_char s = b"
      using b(2) not_hostname_char_NL unfolding s by (simp add: list_all_iff takeWhile_append2)
    moreover have "dropWhile hostname_char s = [NL]"
      using b(2) not_hostname_char_NL unfolding s by (simp add: list_all_iff dropWhile_append2)
    ultimately show ?thesis using b(1) by (simp add: re_match_hostname_def del: takeWhile_eq_all_conv)
  qed
qed

lemma validate_hostname_rejects_iff:
  "(\<exists>e. validate_hostname h = Inl e) \<longleftrightarrow>
     \<not> (\<exists>b. b \<noteq> [] \<and> list_all hostname_char b \<and> (h = b \<or> h = b @ [NL])) \<or> 254 \<le> length h"
  unfolding re_match_hostname_iff[symmetric] by (auto simp: validate_hostname_def)

subsection \<open>Runs\<close>

lemmas run_defs = main_def try_block_def conn_block_def cursor_block_def with_exit_def
  execute_connection_info_query_def display_connection_info_def print_out_def print_err_def
  call_def initial_def none_subscript_def

lemma main_config_error:
  "get_connection_config (set_order lib) environ = Inl (Exn ValueError msg) \<Longrightarrow>
   main environ lib =
     (\<lparr>stdout = [''AWS DSQL Connectivity Test - Python Implementation'', replicate 50 (CHR ''=''),
                 ''Reading environment variables...''],
       stderr = [''Configuration Error: '' @ msg, NL # ''Required environment variables:'',
                 ''- HOSTNAME: DSQL cluster private DNS endpoint'',
                 ''- PGHOSTADDR: Tunnel localhost address (127.0.0.1)'',
                 ''- PGPASSWORD: Generated auth token'',
                 ''- PGSSLMODE: SSL mode (require)''],
       calls = []\<rparr>, 1)"
  by (simp add: run_defs)

lemma main_success:
  "get_connection_config (set_order lib) environ = Inr (params, hostname) \<Longrightarrow>
   connect_result lib = None \<Longrightarrow> cursor_result lib = None \<Longrightarrow> execute_result lib = None \<Longrightarrow>
   fetchone_result lib = Inr (Some r) \<Longrightarrow> cursor_exit lib = None \<Longrightarrow> conn_exit lib = None \<Longrightarrow>
   main environ lib =
     (\<lparr>stdout = [''AWS DSQL Connectivity Test - Python Implementation'', replicate 50 (CHR ''=''),
                 ''Reading environment variables...'',
                 ''Connecting to DSQL cluster: '' @ hostname,
                 ''Via tunnel: '' @ hostaddr params @ '':5432'',
                 NL # ''Establishing connection...'',
                 ''Connection established successfully!'',
                 ''Executing connection info query...''] @ info_block r hostname @
                [NL # ''Connection closed successfully!'', ''DSQL connectivity test completed.''],
       stderr = [],
       calls = [Connect params, Cursor, Execute query, Fetchone, CursorExit, ConnExit]\<rparr>, 0)"
  by (simp add: run_defs info_block_def)

lemma try_block_stderr: "stderr (fst (try_block environ lib s)) = stderr s"
  by (auto simp: run_defs Let_def split: sum.splits option.splits prod.splits)

lemma try_block_clean_iff:
  "snd (try_block environ lib s) = Inr () \<longleftrightarrow>
     (\<exists>params hostname r. get_connection_config (set_order lib) environ = Inr (params, hostname) \<and>
        connect_result lib = None \<and> cursor_result lib = None \<and> execute_result lib = None \<and>
        fetchone_result lib = Inr (Some r) \<and> cursor_exit lib = None \<and> conn_exit lib = None)"
  by (auto simp: run_defs Let_def split: sum.splits option.splits prod.splits)

lemma port_line_replicate: "''Port: 5432'' = replicate n c \<Longrightarrow> n = 10"
  by (drule arg_cong [of _ _ length]) simp

lemma port_line_not_rule: "''Port: 5432'' \<noteq> replicate 30 (CHR ''-'')"
  using port_line_replicate [of 30 "CHR ''-''"] by auto

lemma try_block_no_port_line:
  "snd (try_block environ lib s) = Inl e \<Longrightarrow> cursor_exit lib = None \<Longrightarrow> conn_exit lib = None \<Longrightarrow>
   ''Port: 5432'' \<notin> set (stdout s) \<Longrightarrow> ''Port: 5432'' \<notin> set (stdout (fst (try_block environ lib s)))"
  by (auto simp: run_defs Let_def port_line_not_rule split: sum.splits option.splits prod.splits)

lemma handler_stderr:
  "stderr (handler e s) = stderr s @ stderr (handler e initial)"
  by (cases e; cases "case e of Exn c m \<Rightarrow> c") (simp_all add: print_err_def initial_def)

lemma handler_report:
  assumes "stderr s = []"
  shows "\<exists>msg.
         stderr (handler e s) =
           [''Configuration Error: '' @ msg,
            NL # ''Required environment variables:'',
            ''- HOSTNAME: DSQL cluster private DNS endpoint'',
            ''- PGHOSTADDR: Tunnel localhost address (127.0.0.1)'',
            ''- PGPASSWORD: Generated auth token'',
            ''- PGSSLMODE: SSL mode (require)''] \<or>
         stderr (handler e s) =
           [''Connection Error: '' @ msg,
            NL # ''Troubleshooting tips:'',
            ''- Ensure SSH or SSM tunnel is active'',
            ''- Verify tunnel is forwarding to 127.0.0.1:5432'',
            ''- Check that auth token is valid and not expired''] \<or>
         stderr (handler e s) = [''Database Error: '' @ msg] \<or>
         stderr (handler e s) = [''Unexpected Error: '' @ msg]"
proof (cases e)
  case (Exn c msg)
  show ?thesis
    unfolding Exn using assms by (cases c) (simp_all add: print_err_def)
qed

lemma handler_stdout: "stdout (handler e s) = stdout s"
  by (cases e; cases "case e of Exn c m \<Rightarrow> c") (simp_all add: print_err_def)

subsection \<open>The example run\<close>

lemma validate_hostname_example:
  "validate_hostname ''db.internal.example'' = Inr ''db.internal.example''"
  by (simp add: validate_hostname_def re_match_hostname_def hostname_char_def in_range_def)

lemma example_config:
  "get_connection_config order example_environ = Inr (example_params, ''db.internal.example'')"
proof -
  have "get_connection_config order example_environ =
     (case validate_hostname ''db.internal.example'' of Inl e \<Rightarrow> Inl e | Inr h' \<Rightarrow>
     (case validate_ssl_mode order ''require'' of Inl e \<Rightarrow> Inl e | Inr m' \<Rightarrow>
        Inr (\<lparr>host = ''db.internal.example'', hostaddr = ''127.0.0.1'', port = 5432,
              database = ''postgres'', user = ''admin'', password = ''token123'',
              sslmode = ''require'', connect_timeout = 30\<rparr>, ''db.internal.example'')))"
    by (rule get_connection_config_present) (simp_all add: example_environ_def)
  then show ?thesis
    by (simp add: validate_hostname_example validate_ssl_mode_def valid_modes_def example_params_def)
qed

section \<open>Claims\<close>

text \<open>
  C1, as amended. With a valid configuration, a connection that opens and a query whose
  result has no row, \<^verbatim>\<open>fetchone\<close> returns \<^verbatim>\<open>None\<close>; the script does not test for it,
  \<^verbatim>\<open>display_connection_info\<close> prints the heading and the rule of the block and the
  subscript of \<^verbatim>\<open>None\<close> raises \<^verbatim>\<open>TypeError\<close>. When both scopes are then released
  without a further exception, the catch-all handler reports it: one line
  \<^verbatim>\<open>Unexpected Error: ...\<close> on the error stream and exit status 1.
\<close>

theorem zero_rows_unexpected_error:
  assumes "get_connection_config (set_order lib) environ = Inr (params, hostname)"
    and "connect_result lib = None" and "cursor_result lib = None"
    and "execute_result lib = None" and "fetchone_result lib = Inr None"
    and "cursor_exit lib = None" and "conn_exit lib = None"
  shows "main environ lib =
     (\<lparr>stdout = [''AWS DSQL Connectivity Test - Python Implementation'', replicate 50 (CHR ''=''),
                 ''Reading environment variables...'',
                 ''Connecting to DSQL cluster: '' @ hostname,
                 ''Via tunnel: '' @ hostaddr params @ '':5432'',
                 NL # ''Establishing connection...'',
                 ''Connection established successfully!'',
                 ''Executing connection info query...'',
                 NL # ''Connection Information:'', replicate 30 (CHR ''-'')],
       stderr = [''Unexpected Error: '' @ QUOTE # ''NoneType'' @ QUOTE # '' object is not subscriptable''],
       calls = [Connect params, Cursor, Execute query, Fetchone, CursorExit, ConnExit]\<rparr>, 1)"
  using assms by (simp add: run_defs)

theorem zero_rows_unexpected_error_witness:
  "main example_environ (example_world\<lparr>fetchone_result := Inr None\<rparr>) =
     (\<lparr>stdout = [''AWS DSQL Connectivity Test - Python Implementation'', replicate 50 (CHR ''=''),
                 ''Reading environment variables...'',
                 ''Connecting to DSQL cluster: db.internal.example'',
                 ''Via tunnel: 127.0.0.1:5432'',
                 NL # ''Establishing connection...'',
                 ''Connection established successfully!'',
                 ''Executing connection info query...'',
                 NL # ''Connection Information:'', replicate 30 (CHR ''-'')],
       stderr = [''Unexpected Error: '' @ QUOTE # ''NoneType'' @ QUOTE # '' object is not subscriptable''],
       calls = [Connect example_params, Cursor, Execute query, Fetchone, CursorExit, ConnExit]\<rparr>, 1)"
  using zero_rows_unexpected_error [of "example_world\<lparr>fetchone_result := Inr None\<rparr>"
      example_environ example_params "''db.internal.example''"]
  by (simp add: example_world_def example_config) (simp add: example_params_def)

text \<open>
  C1 as stated fails: on the example environment with an empty result the message on the
  error stream is that of the catch-all handler, not the \<^verbatim>\<open>Database Error\<close> of the
  handler for \<^verbatim>\<open>psycopg2.Error\<close>.
\<close>

theorem zero_rows_counterexample:
  "snd (main example_environ (example_world\<lparr>fetchone_result := Inr None\<rparr>)) = 1 \<and>
   stderr (fst (main example_environ (example_world\<lparr>fetchone_result := Inr None\<rparr>))) =
     [''Unexpected Error: '' @ QUOTE # ''NoneType'' @ QUOTE # '' object is not subscriptable''] \<and>
   \<not> prefix ''Database Error'' (hd (stderr (fst (main example_environ (example_world\<lparr>fetchone_result := Inr None\<rparr>)))))"
  by (simp add: run_defs example_world_def example_config)

text \<open>
  C2, as amended. When one of the four required variables is absent or empty, the loop of
  \<^verbatim>\<open>get_connection_config\<close> raises at the first such variable in the order
  HOSTNAME, PGHOSTADDR, PGPASSWORD, PGSSLMODE. The run prints the configuration error
  naming that one variable, followed by the fixed list of the four variables, makes no
  call into the database library, and exits with status 1. Variables that are missing
  further down the order are not looked at.
\<close>

theorem missing_configuration:
  assumes "v \<in> set required_vars" and "environ v = None \<or> environ v = Some ''''"
  shows "\<exists>u. find (is_missing environ) required_vars = Some u \<and>
           u \<in> set required_vars \<and> is_missing environ u \<and>
           main environ lib =
             (\<lparr>stdout = [''AWS DSQL Connectivity Test - Python Implementation'',
                         replicate 50 (CHR ''=''), ''Reading environment variables...''],
               stderr = [''Configuration Error: Required environment variable '' @ u @ '' is not set'',
                         NL # ''Required environment variables:'',
                         ''- HOSTNAME: DSQL cluster private DNS endpoint'',
                         ''- PGHOSTADDR: Tunnel localhost address (127.0.0.1)'',
                         ''- PGPASSWORD: Generated auth token'',
                         ''- PGSSLMODE: SSL mode (require)''],
               calls = []\<rparr>, 1)"
proof -
  from assms have "is_missing environ v" by (simp add: is_missing_def)
  with assms(1) obtain u where u: "find (is_missing environ) required_vars = Some u"
    using find_missing_exists by blast
  then have "get_connection_config (set_order lib) environ =
      Inl (Exn ValueError (''Required environment variable '' @ u @ '' is not set''))"
    by (simp add: get_connection_config_missing not_set_def)
  then show ?thesis
    using u find_missing_props[OF u] main_config_error by auto
qed

theorem missing_configuration_witness:
  "main (example_environ(''PGPASSWORD'' := None, ''PGSSLMODE'' \<mapsto> '''')) example_world =
     (\<lparr>stdout = [''AWS DSQL Connectivity Test - Python Implementation'',
                 replicate 50 (CHR ''=''), ''Reading environment variables...''],
       stderr = [''Configuration Error: Required environment variable PGPASSWORD is not set'',
                 NL # ''Required environment variables:'',
                 ''- HOSTNAME: DSQL cluster private DNS endpoint'',
                 ''- PGHOSTADDR: Tunnel localhost address (127.0.0.1)'',
                 ''- PGPASSWORD: Generated auth token'',
                 ''- PGSSLMODE: SSL mode (require)''],
       calls = []\<rparr>, 1)"
  using missing_configuration [of "''PGPASSWORD''"
      "example_environ(''PGPASSWORD'' := None, ''PGSSLMODE'' \<mapsto> '''')" example_world]
  by (simp add: required_vars_def is_missing_def example_environ_def)

text \<open>
  C2 as stated fails where it says that the missing variables are identified: with
  PGPASSWORD absent, the run is the same whether PGSSLMODE is empty or set, so a second
  missing variable is not identified.
\<close>

theorem second_missing_variable_counterexample:
  "is_missing (example_environ(''PGPASSWORD'' := None, ''PGSSLMODE'' \<mapsto> [])) ''PGPASSWORD'' \<and>
   is_missing (example_environ(''PGPASSWORD'' := None, ''PGSSLMODE'' \<mapsto> [])) ''PGSSLMODE'' \<and>
   \<not> is_missing (example_environ(''PGPASSWORD'' := None)) ''PGSSLMODE'' \<and>
   main (example_environ(''PGPASSWORD'' := None, ''PGSSLMODE'' \<mapsto> [])) example_world =
     (\<lparr>stdout = [''AWS DSQL Connectivity Test - Python Implementation'',
                 replicate 50 (CHR ''=''), ''Reading environment variables...''],
       stderr = [''Configuration Error: Required environment variable PGPASSWORD is not set'',
                 NL # ''Required environment variables:'',
                 ''- HOSTNAME: DSQL cluster private DNS endpoint'',
                 ''- PGHOSTADDR: Tunnel localhost address (127.0.0.1)'',
                 ''- PGPASSWORD: Generated auth token'',
                 ''- PGSSLMODE: SSL mode (require)''],
       calls = []\<rparr>, 1) \<and>
   main (example_environ(''PGPASSWORD'' := None)) example_world =
     main (example_environ(''PGPASSWORD'' := None, ''PGSSLMODE'' \<mapsto> [])) example_world"
proof -
  let ?two = "example_environ(''PGPASSWORD'' := None, ''PGSSLMODE'' \<mapsto> [])"
  let ?one = "example_environ(''PGPASSWORD'' := None)"
  have f2: "find (is_missing ?two) required_vars = Some ''PGPASSWORD''"
    by (simp add: required_vars_def is_missing_def example_environ_def)
  have f1: "find (is_missing ?one) required_vars = Some ''PGPASSWORD''"
    by (simp add: required_vars_def is_missing_def example_environ_def)
  have c2: "get_connection_config (set_order example_world) ?two =
      Inl (Exn ValueError ''Required environment variable PGPASSWORD is not set'')"
    using get_connection_config_missing [OF f2] by (simp add: not_set_def)
  have c1: "get_connection_config (set_order example_world) ?one =
      Inl (Exn ValueError ''Required environment variable PGPASSWORD is not set'')"
    using get_connection_config_missing [OF f1] by (simp add: not_set_def)
  have m: "is_missing ?two ''PGPASSWORD''" "is_missing ?two ''PGSSLMODE''"
    "\<not> is_missing ?one ''PGSSLMODE''"
    by (simp_all add: is_missing_def example_environ_def)
  from m main_config_error [OF c2] main_config_error [OF c1] show ?thesis
    by simp
qed

text \<open>
  C3. The expression accepts a hostname that ends in a newline: \<^verbatim>\<open>$\<close> also holds just
  before a final newline. Such a hostname contains a character outside the class
  \<^verbatim>\<open>[a-zA-Z0-9.-]\<close>, is at most 253 long, and is returned unchanged, the newline
  included, to become the \<^verbatim>\<open>host\<close> parameter of the connection.
\<close>

theorem trailing_newline_hostname_accepted:
  "\<not> hostname_char NL \<and>
   length (''db.internal.example'' @ [NL]) \<le> 253 \<and>
   validate_hostname (''db.internal.example'' @ [NL]) = Inr (''db.internal.example'' @ [NL]) \<and>
   get_connection_config order (example_environ(''HOSTNAME'' \<mapsto> ''db.internal.example'' @ [NL])) =
     Inr (example_params\<lparr>host := ''db.internal.example'' @ [NL]\<rparr>, ''db.internal.example'' @ [NL])"
proof -
  have v: "validate_hostname (''db.internal.example'' @ [NL]) = Inr (''db.internal.example'' @ [NL])"
    by (simp add: validate_hostname_def re_match_hostname_def hostname_char_def in_range_def)
  have "get_connection_config order (example_environ(''HOSTNAME'' \<mapsto> ''db.internal.example'' @ [NL])) =
     (case validate_hostname (''db.internal.example'' @ [NL]) of Inl e \<Rightarrow> Inl e | Inr h' \<Rightarrow>
     (case validate_ssl_mode order ''require'' of Inl e \<Rightarrow> Inl e | Inr m' \<Rightarrow>
        Inr (\<lparr>host = ''db.internal.example'' @ [NL], hostaddr = ''127.0.0.1'', port = 5432,
              database = ''postgres'', user = ''admin'', password = ''token123'',
              sslmode = ''require'', connect_timeout = 30\<rparr>, ''db.internal.example'' @ [NL])))"
    by (rule get_connection_config_present) (simp_all add: example_environ_def)
  then have "get_connection_config order (example_environ(''HOSTNAME'' \<mapsto> ''db.internal.example'' @ [NL])) =
     Inr (example_params\<lparr>host := ''db.internal.example'' @ [NL]\<rparr>, ''db.internal.example'' @ [NL])"
    using v by (simp add: validate_ssl_mode_def valid_modes_def example_params_def)
  with v show ?thesis
    by (simp add: not_hostname_char_NL)
qed

text \<open>
  C4, as amended. A hostname that fails the expression is reported with the message
  \<^verbatim>\<open>Invalid hostname format: \<close> followed by the value, and a rejected SSL mode with
  \<^verbatim>\<open>Invalid SSL mode: \<close> followed by the value and the set of modes; both messages
  contain the value supplied. A hostname that passes the expression and is longer than 253
  is reported with the fixed message \<^verbatim>\<open>Hostname too long\<close>, which does not carry the
  value.
\<close>

theorem validation_messages:
  "(validate_hostname h = Inl e \<longrightarrow>
      (\<not> re_match_hostname h \<and> e = Exn ValueError (''Invalid hostname format: '' @ h) \<and>
         sublist h (''Invalid hostname format: '' @ h)) \<or>
      (re_match_hostname h \<and> 253 < length h \<and> e = Exn ValueError ''Hostname too long'')) \<and>
   (validate_ssl_mode order m = Inl e' \<longrightarrow>
      e' = Exn ValueError (''Invalid SSL mode: '' @ m @ ''. Must be one of '' @ set_repr order) \<and>
      sublist m (''Invalid SSL mode: '' @ m @ ''. Must be one of '' @ set_repr order))"
proof -
  have a: "sublist h (''Invalid hostname format: '' @ h)"
    using sublist_appendI [of h "''Invalid hostname format: ''" "[]"] by simp
  have b: "sublist m (''Invalid SSL mode: '' @ m @ ''. Must be one of '' @ set_repr order)"
    by (rule sublist_appendI)
  have c: "validate_hostname h = Inl e \<longrightarrow>
      (\<not> re_match_hostname h \<and> e = Exn ValueError (''Invalid hostname format: '' @ h)) \<or>
      (re_match_hostname h \<and> 253 < length h \<and> e = Exn ValueError ''Hostname too long'')"
    by (auto simp: validate_hostname_def split: if_splits)
  have d: "validate_ssl_mode order m = Inl e' \<longrightarrow>
      e' = Exn ValueError (''Invalid SSL mode: '' @ m @ ''. Must be one of '' @ set_repr order)"
    by (auto simp: validate_ssl_mode_def split: if_splits)
  from a b c d show ?thesis by blast
qed

theorem validation_messages_witness:
  "validate_hostname ''host name;drop'' = Inl (Exn ValueError ''Invalid hostname format: host name;drop'') \<and>
   sublist ''host name;drop'' ''Invalid hostname format: host name;drop'' \<and>
   validate_ssl_mode [''require'', ''prefer'', ''allow'', ''disable''] ''verify-full'' =
     Inl (Exn ValueError (''Invalid SSL mode: verify-full. Must be one of '' @
       ''{'' @ QUOTE # ''require'' @ QUOTE # '', '' @ QUOTE # ''prefer'' @ QUOTE # '', '' @
       QUOTE # ''allow'' @ QUOTE # '', '' @ QUOTE # ''disable'' @ QUOTE # ''}'')) \<and>
   sublist ''verify-full'' (''Invalid SSL mode: verify-full. Must be one of '' @
       ''{'' @ QUOTE # ''require'' @ QUOTE # '', '' @ QUOTE # ''prefer'' @ QUOTE # '', '' @
       QUOTE # ''allow'' @ QUOTE # '', '' @ QUOTE # ''disable'' @ QUOTE # ''}'')"
proof -
  have h: "validate_hostname ''host name;drop'' =
      Inl (Exn ValueError ''Invalid hostname format: host name;drop'')"
    by (simp add: validate_hostname_def re_match_hostname_def hostname_char_def in_range_def)
  have m: "validate_ssl_mode [''require'', ''prefer'', ''allow'', ''disable''] ''verify-full'' =
     Inl (Exn ValueError (''Invalid SSL mode: verify-full. Must be one of '' @
       ''{'' @ QUOTE # ''require'' @ QUOTE # '', '' @ QUOTE # ''prefer'' @ QUOTE # '', '' @
       QUOTE # ''allow'' @ QUOTE # '', '' @ QUOTE # ''disable'' @ QUOTE # ''}''))"
    by (simp add: validate_ssl_mode_def valid_modes_def set_repr_def py_repr_def)
  have nm: "\<not> re_match_hostname ''host name;drop''"
    by (simp add: re_match_hostname_def hostname_char_def in_range_def)
  from validation_messages [of "''host name;drop''" "Exn ValueError ''Invalid hostname format: host name;drop''"
      "[''require'', ''prefer'', ''allow'', ''disable'']" "''verify-full''"
      "Exn ValueError (''Invalid SSL mode: verify-full. Must be one of '' @
       ''{'' @ QUOTE # ''require'' @ QUOTE # '', '' @ QUOTE # ''prefer'' @ QUOTE # '', '' @
       QUOTE # ''allow'' @ QUOTE # '', '' @ QUOTE # ''disable'' @ QUOTE # ''}'')"]
  show ?thesis using h m nm by (simp add: set_repr_def py_repr_def)
qed

text \<open>
  C4 as stated fails: a hostname of 254 letters is rejected with a message of 17
  characters, which cannot contain it.
\<close>

theorem hostname_too_long_counterexample:
  "validate_hostname (replicate 254 (CHR ''a'')) = Inl (Exn ValueError ''Hostname too long'') \<and>
   \<not> sublist (replicate 254 (CHR ''a'')) ''Hostname too long''"
proof -
  have "\<not> sublist (replicate 254 (CHR ''a'')) ''Hostname too long''"
    using sublist_length_le[of "replicate 254 (CHR ''a'')" "''Hostname too long''"] by auto
  then show ?thesis
    by (simp add: validate_hostname_def re_match_hostname_def hostname_char_def in_range_def)
qed

text \<open>
  C5. \<^verbatim>\<open>validate_ssl_mode\<close> returns its argument unchanged exactly for the four modes
  require, prefer, allow and disable, and raises for every other string. In an
  environment with the four variables set and a hostname that passes validation, the
  configuration fails with the invalid SSL mode message exactly when PGSSLMODE is not one
  of the four, and otherwise succeeds with that mode.
\<close>

theorem validate_ssl_mode_membership:
  assumes "environ ''HOSTNAME'' = Some h" and "h \<noteq> []"
    and "environ ''PGHOSTADDR'' = Some a" and "a \<noteq> []"
    and "environ ''PGPASSWORD'' = Some p" and "p \<noteq> []"
    and "environ ''PGSSLMODE'' = Some m" and "m \<noteq> []"
    and "validate_hostname h = Inr h'"
  shows "(get_connection_config order environ =
            Inl (Exn ValueError (''Invalid SSL mode: '' @ m @ ''. Must be one of '' @ set_repr order))
          \<longleftrightarrow> m \<notin> {''require'', ''prefer'', ''allow'', ''disable''}) \<and>
         ((\<exists>params. get_connection_config order environ = Inr (params, h) \<and> sslmode params = m)
          \<longleftrightarrow> m \<in> {''require'', ''prefer'', ''allow'', ''disable''}) \<and>
         (validate_ssl_mode order m = Inr m \<longleftrightarrow> m \<in> {''require'', ''prefer'', ''allow'', ''disable''}) \<and>
         ((\<exists>e. validate_ssl_mode order m = Inl e) \<longleftrightarrow> m \<notin> {''require'', ''prefer'', ''allow'', ''disable''})"
proof -
  have cfg: "get_connection_config order environ =
     (case validate_ssl_mode order m of Inl e \<Rightarrow> Inl e | Inr m' \<Rightarrow>
        Inr (\<lparr>host = h, hostaddr = a, port = 5432, database = ''postgres'',
              user = ''admin'', password = p, sslmode = m, connect_timeout = 30\<rparr>, h))"
    using get_connection_config_present [OF assms(1-8), of order] assms(9) by simp
  show ?thesis
    unfolding cfg by (auto simp: validate_ssl_mode_def valid_modes_def)
qed

theorem validate_ssl_mode_membership_witness:
  "get_connection_config [''require'', ''prefer'', ''allow'', ''disable'']
       (example_environ(''PGSSLMODE'' \<mapsto> ''verify-full'')) =
     Inl (Exn ValueError (''Invalid SSL mode: verify-full. Must be one of '' @
            set_repr [''require'', ''prefer'', ''allow'', ''disable''])) \<and>
   validate_ssl_mode [''require'', ''prefer'', ''allow'', ''disable''] ''verify-full'' \<noteq> Inr ''verify-full''"
  using validate_ssl_mode_membership [of "example_environ(''PGSSLMODE'' \<mapsto> ''verify-full'')"
      "''db.internal.example''" "''127.0.0.1''" "''token123''" "''verify-full''"
      "''db.internal.example''" "[''require'', ''prefer'', ''allow'', ''disable'']"]
  by (simp add: example_environ_def validate_hostname_example)

text \<open>
  C6. With the four variables set and non-empty, a hostname that passes validation and
  an SSL mode of the allowed set, \<^verbatim>\<open>get_connection_config\<close> returns the parameters
  host = HOSTNAME, hostaddr = PGHOSTADDR, port 5432, database postgres, user admin,
  password = PGPASSWORD, sslmode = PGSSLMODE and a connect timeout of 30, together with
  the hostname.
\<close>

theorem get_connection_config_success:
  assumes "environ ''HOSTNAME'' = Some h" and "h \<noteq> []"
    and "environ ''PGHOSTADDR'' = Some a" and "a \<noteq> []"
    and "environ ''PGPASSWORD'' = Some p" and "p \<noteq> []"
    and "environ ''PGSSLMODE'' = Some m" and "m \<noteq> []"
    and "validate_hostname h = Inr h'"
    and "m \<in> {''require'', ''prefer'', ''allow'', ''disable''}"
  shows "get_connection_config order environ =
           Inr (\<lparr>host = h, hostaddr = a, port = 5432, database = ''postgres'',
                 user = ''admin'', password = p, sslmode = m, connect_timeout = 30\<rparr>, h)"
  using get_connection_config_present [OF assms(1-8), of order] assms(9,10)
  by (auto simp: validate_ssl_mode_def valid_modes_def)

theorem get_connection_config_success_witness:
  "get_connection_config [''require'', ''prefer'', ''allow'', ''disable''] example_environ =
     Inr (\<lparr>host = ''db.internal.example'', hostaddr = ''127.0.0.1'', port = 5432,
           database = ''postgres'', user = ''admin'', password = ''token123'',
           sslmode = ''require'', connect_timeout = 30\<rparr>, ''db.internal.example'')"
  using get_connection_config_success [of example_environ "''db.internal.example''" "''127.0.0.1''"
      "''token123''" "''require''" "''db.internal.example''" "[''require'', ''prefer'', ''allow'', ''disable'']"]
  by (simp add: example_environ_def validate_hostname_example)

text \<open>
  C7. When the configuration is valid and \<^verbatim>\<open>psycopg2.connect\<close> raises
  \<^verbatim>\<open>OperationalError\<close> (the class for a timeout, a refused connection, a rejected
  authentication or a failed TLS negotiation), the error stream holds the one
  \<^verbatim>\<open>Connection Error\<close> message, the heading of the tips and exactly the three hints
  (tunnel active, tunnel forwarding to 127.0.0.1:5432, token not expired), and the
  process exits with status 1.
\<close>

theorem connection_failure_report:
  assumes "get_connection_config (set_order lib) environ = Inr (params, hostname)"
    and "connect_result lib = Some (Exn OperationalError msg)"
  shows "main environ lib =
     (\<lparr>stdout = [''AWS DSQL Connectivity Test - Python Implementation'', replicate 50 (CHR ''=''),
                 ''Reading environment variables...'',
                 ''Connecting to DSQL cluster: '' @ hostname,
                 ''Via tunnel: '' @ hostaddr params @ '':5432'',
                 NL # ''Establishing connection...''],
       stderr = [''Connection Error: '' @ msg, NL # ''Troubleshooting tips:'',
                 ''- Ensure SSH or SSM tunnel is active'',
                 ''- Verify tunnel is forwarding to 127.0.0.1:5432'',
                 ''- Check that auth token is valid and not expired''],
       calls = [Connect params]\<rparr>, 1)"
  using assms by (simp add: run_defs)

theorem connection_failure_report_witness:
  "main example_environ (example_world\<lparr>connect_result := Some (Exn OperationalError ''Connection refused'')\<rparr>) =
     (\<lparr>stdout = [''AWS DSQL Connectivity Test - Python Implementation'', replicate 50 (CHR ''=''),
                 ''Reading environment variables...'',
                 ''Connecting to DSQL cluster: db.internal.example'',
                 ''Via tunnel: 127.0.0.1:5432'',
                 NL # ''Establishing connection...''],
       stderr = [''Connection Error: Connection refused'', NL # ''Troubleshooting tips:'',
                 ''- Ensure SSH or SSM tunnel is active'',
                 ''- Verify tunnel is forwarding to 127.0.0.1:5432'',
                 ''- Check that auth token is valid and not expired''],
       calls = [Connect example_params]\<rparr>, 1)"
  using connection_failure_report [of "example_world\<lparr>connect_result := Some (Exn OperationalError ''Connection refused'')\<rparr>"
      example_environ example_params "''db.internal.example''" "''Connection refused''"]
  by (simp add: example_world_def example_config) (simp add: example_params_def)

text \<open>
  C8, as amended. The exit status is 0 or 1. It is 0 exactly when the whole
  \<^verbatim>\<open>try\<close> block completes: the configuration is valid, the connection and the cursor
  open, the query runs, one row is fetched, the full info block is printed, and the
  cursor and the connection scopes are released without an exception; nothing is then
  written to the error stream. When it is 1, the error stream holds exactly the output
  of one of the four handlers: the \<^verbatim>\<open>Configuration Error\<close> message with the list of
  the four variables, the \<^verbatim>\<open>Connection Error\<close> message with the three tips, the
  \<^verbatim>\<open>Database Error\<close> message, or the \<^verbatim>\<open>Unexpected Error\<close> message. A failing run in
  which the release of both scopes raises nothing has not printed the info block.
\<close>

theorem exit_status_all_or_nothing:
  "(snd (main environ lib) = 0 \<or> snd (main environ lib) = 1) \<and>
   (snd (main environ lib) = 0 \<longleftrightarrow>
      (\<exists>params hostname r.
         get_connection_config (set_order lib) environ = Inr (params, hostname) \<and>
         connect_result lib = None \<and> cursor_result lib = None \<and> execute_result lib = None \<and>
         fetchone_result lib = Inr (Some r) \<and> cursor_exit lib = None \<and> conn_exit lib = None \<and>
         sublist (info_block r hostname) (stdout (fst (main environ lib))))) \<and>
   (snd (main environ lib) = 0 \<longrightarrow> stderr (fst (main environ lib)) = []) \<and>
   (snd (main environ lib) = 1 \<longrightarrow>
      (\<exists>msg.
         stderr (fst (main environ lib)) =
           [''Configuration Error: '' @ msg,
            NL # ''Required environment variables:'',
            ''- HOSTNAME: DSQL cluster private DNS endpoint'',
            ''- PGHOSTADDR: Tunnel localhost address (127.0.0.1)'',
            ''- PGPASSWORD: Generated auth token'',
            ''- PGSSLMODE: SSL mode (require)''] \<or>
         stderr (fst (main environ lib)) =
           [''Connection Error: '' @ msg,
            NL # ''Troubleshooting tips:'',
            ''- Ensure SSH or SSM tunnel is active'',
            ''- Verify tunnel is forwarding to 127.0.0.1:5432'',
            ''- Check that auth token is valid and not expired''] \<or>
         stderr (fst (main environ lib)) = [''Database Error: '' @ msg] \<or>
         stderr (fst (main environ lib)) = [''Unexpected Error: '' @ msg])) \<and>
   (snd (main environ lib) = 1 \<and> cursor_exit lib = None \<and> conn_exit lib = None \<longrightarrow>
      (\<forall>r hostname. \<not> sublist (info_block r hostname) (stdout (fst (main environ lib)))))"
proof -
  let ?s0 = "print_out (replicate 50 (CHR ''=''))
               (print_out ''AWS DSQL Connectivity Test - Python Implementation'' initial)"
  let ?t = "try_block environ lib ?s0"
  let ?clean = "\<exists>params hostname r.
         get_connection_config (set_order lib) environ = Inr (params, hostname) \<and>
         connect_result lib = None \<and> cursor_result lib = None \<and> execute_result lib = None \<and>
         fetchone_result lib = Inr (Some r) \<and> cursor_exit lib = None \<and> conn_exit lib = None"
  have m: "main environ lib = (case snd ?t of Inr u \<Rightarrow> (fst ?t, 0) | Inl e \<Rightarrow> (handler e (fst ?t), 1))"
    by (simp add: main_def Let_def)
  have err0: "stderr (fst ?t) = []"
    by (simp add: try_block_stderr print_out_def initial_def)
  have p1: "snd (main environ lib) = 0 \<or> snd (main environ lib) = 1"
    unfolding m by (simp split: sum.splits)
  have zero: "snd (main environ lib) = 0 \<longleftrightarrow> snd ?t = Inr ()"
    unfolding m by (simp split: sum.splits)
  have clean: "snd ?t = Inr () \<longleftrightarrow> ?clean"
    by (rule try_block_clean_iff)
  have block: "sublist (info_block r hostname) (stdout (fst (main environ lib)))"
    if "get_connection_config (set_order lib) environ = Inr (params, hostname)"
      "connect_result lib = None" "cursor_result lib = None" "execute_result lib = None"
      "fetchone_result lib = Inr (Some r)" "cursor_exit lib = None" "conn_exit lib = None"
    for params hostname r
    using main_success [OF that] by (metis fst_conv run_state.select_convs(1) sublist_appendI)
  have p2: "snd (main environ lib) = 0 \<longleftrightarrow>
      (\<exists>params hostname r.
         get_connection_config (set_order lib) environ = Inr (params, hostname) \<and>
         connect_result lib = None \<and> cursor_result lib = None \<and> execute_result lib = None \<and>
         fetchone_result lib = Inr (Some r) \<and> cursor_exit lib = None \<and> conn_exit lib = None \<and>
         sublist (info_block r hostname) (stdout (fst (main environ lib))))"
    unfolding zero clean using block by blast
  have p3: "snd (main environ lib) = 0 \<longrightarrow> stderr (fst (main environ lib)) = []"
    unfolding m using err0 by (simp split: sum.splits)
  have p4: "snd (main environ lib) = 1 \<longrightarrow>
      (\<exists>msg.
         stderr (fst (main environ lib)) =
           [''Configuration Error: '' @ msg,
            NL # ''Required environment variables:'',
            ''- HOSTNAME: DSQL cluster private DNS endpoint'',
            ''- PGHOSTADDR: Tunnel localhost address (127.0.0.1)'',
            ''- PGPASSWORD: Generated auth token'',
            ''- PGSSLMODE: SSL mode (require)''] \<or>
         stderr (fst (main environ lib)) =
           [''Connection Error: '' @ msg,
            NL # ''Troubleshooting tips:'',
            ''- Ensure SSH or SSM tunnel is active'',
            ''- Verify tunnel is forwarding to 127.0.0.1:5432'',
            ''- Check that auth token is valid and not expired''] \<or>
         stderr (fst (main environ lib)) = [''Database Error: '' @ msg] \<or>
         stderr (fst (main environ lib)) = [''Unexpected Error: '' @ msg])"
  proof
    assume "snd (main environ lib) = 1"
    then obtain e where e: "snd ?t = Inl e"
      unfolding m by (auto split: sum.splits)
    then have eq: "stderr (fst (main environ lib)) = stderr (handler e (fst ?t))"
      unfolding m by simp
    show "(\<exists>msg.
             stderr (fst (main environ lib)) =
               [''Configuration Error: '' @ msg,
                NL # ''Required environment variables:'',
                ''- HOSTNAME: DSQL cluster private DNS endpoint'',
                ''- PGHOSTADDR: Tunnel localhost address (127.0.0.1)'',
                ''- PGPASSWORD: Generated auth token'',
                ''- PGSSLMODE: SSL mode (require)''] \<or>
             stderr (fst (main environ lib)) =
               [''Connection Error: '' @ msg,
                NL # ''Troubleshooting tips:'',
                ''- Ensure SSH or SSM tunnel is active'',
                ''- Verify tunnel is forwarding to 127.0.0.1:5432'',
                ''- Check that auth token is valid and not expired''] \<or>
             stderr (fst (main environ lib)) = [''Database Error: '' @ msg] \<or>
             stderr (fst (main environ lib)) = [''Unexpected Error: '' @ msg])"
      unfolding eq by (rule handler_report [OF err0])
  qed
  have p5: "snd (main environ lib) = 1 \<and> cursor_exit lib = None \<and> conn_exit lib = None \<longrightarrow>
      (\<forall>r hostname. \<not> sublist (info_block r hostname) (stdout (fst (main environ lib))))"
  proof (intro impI allI notI)
    fix r hostname
    assume a: "snd (main environ lib) = 1 \<and> cursor_exit lib = None \<and> conn_exit lib = None"
      and sub: "sublist (info_block r hostname) (stdout (fst (main environ lib)))"
    from a obtain e where e: "snd ?t = Inl e"
      unfolding m by (auto split: sum.splits)
    have "''Port: 5432'' \<notin> set (stdout ?s0)"
      using port_line_replicate [of 50 "CHR ''=''"] by (auto simp add: print_out_def initial_def)
    with e a have "''Port: 5432'' \<notin> set (stdout (fst ?t))"
      by (simp add: try_block_no_port_line)
    then have "''Port: 5432'' \<notin> set (stdout (fst (main environ lib)))"
      unfolding m using e by (simp add: handler_stdout)
    moreover have "''Port: 5432'' \<in> set (info_block r hostname)"
      by (simp add: info_block_def)
    ultimately show False
      using sub set_mono_sublist by blast
  qed
  from p1 p2 p3 p4 p5 show ?thesis by blast
qed

theorem exit_status_all_or_nothing_witness:
  "snd (main example_environ example_world) = 0 \<and>
   stderr (fst (main example_environ example_world)) = [] \<and>
   sublist (info_block example_row ''db.internal.example'')
     (stdout (fst (main example_environ example_world))) \<and>
   snd (main example_environ
     (example_world\<lparr>connect_result := Some (Exn OperationalError ''Connection refused'')\<rparr>)) = 1 \<and>
   stderr (fst (main example_environ
     (example_world\<lparr>connect_result := Some (Exn OperationalError ''Connection refused'')\<rparr>))) =
     [''Connection Error: Connection refused'',
      NL # ''Troubleshooting tips:'',
      ''- Ensure SSH or SSM tunnel is active'',
      ''- Verify tunnel is forwarding to 127.0.0.1:5432'',
      ''- Check that auth token is valid and not expired''] \<and>
   \<not> sublist (info_block example_row ''db.internal.example'')
     (stdout (fst (main example_environ
       (example_world\<lparr>connect_result := Some (Exn OperationalError ''Connection refused'')\<rparr>))))"
proof -
  let ?bad = "example_world\<lparr>connect_result := Some (Exn OperationalError ''Connection refused'')\<rparr>"
  note ok = exit_status_all_or_nothing [of example_environ example_world]
  note ko = exit_status_all_or_nothing [of example_environ ?bad]
  note ok_iff = ok [THEN conjunct2, THEN conjunct1]
  note ok_err = ok [THEN conjunct2, THEN conjunct2, THEN conjunct1]
  note ko_block = ko [THEN conjunct2, THEN conjunct2, THEN conjunct2, THEN conjunct2]
  have zero: "snd (main example_environ example_world) = 0"
    by (simp add: run_defs example_world_def example_config)
  have one: "snd (main example_environ ?bad) = 1"
    by (simp add: run_defs example_world_def example_config)
  from ok_err zero have a: "stderr (fst (main example_environ example_world)) = []"
    by (rule mp)
  from ok_iff zero obtain params hostname r where
    "get_connection_config (set_order example_world) example_environ = Inr (params, hostname)"
    "fetchone_result example_world = Inr (Some r)"
    "sublist (info_block r hostname) (stdout (fst (main example_environ example_world)))"
    by blast
  then have b: "sublist (info_block example_row ''db.internal.example'')
     (stdout (fst (main example_environ example_world)))"
    by (simp add: example_config) (simp add: example_world_def)
  from ko_block one have c: "\<not> sublist (info_block example_row ''db.internal.example'')
     (stdout (fst (main example_environ ?bad)))"
    by (simp add: example_world_def)
  have d: "stderr (fst (main example_environ ?bad)) =
     [''Connection Error: Connection refused'',
      NL # ''Troubleshooting tips:'',
      ''- Ensure SSH or SSM tunnel is active'',
      ''- Verify tunnel is forwarding to 127.0.0.1:5432'',
      ''- Check that auth token is valid and not expired'']"
    by (simp add: run_defs example_world_def example_config)
  from zero a b one d c show ?thesis
    by (intro conjI)
qed

text \<open>
  C8 as stated fails: both \<^verbatim>\<open>with\<close> statements are inside the \<^verbatim>\<open>try\<close>, so an
  exception raised when the connection scope is released (the commit) arrives after
  \<^verbatim>\<open>display_connection_info\<close> has printed the full block. The configuration is valid,
  the connection opened and one row was fetched and printed; the run then reports a
  connection error and exits with status 1.
\<close>

theorem scope_exit_failure_counterexample:
  "connect_result (example_world\<lparr>conn_exit := Some (Exn OperationalError ''server closed the connection unexpectedly'')\<rparr>) = None \<and>
   fetchone_result (example_world\<lparr>conn_exit := Some (Exn OperationalError ''server closed the connection unexpectedly'')\<rparr>) = Inr (Some example_row) \<and>
   sublist (info_block example_row ''db.internal.example'')
     (stdout (fst (main example_environ
        (example_world\<lparr>conn_exit := Some (Exn OperationalError ''server closed the connection unexpectedly'')\<rparr>)))) \<and>
   stderr (fst (main example_environ
        (example_world\<lparr>conn_exit := Some (Exn OperationalError ''server closed the connection unexpectedly'')\<rparr>))) =
     [''Connection Error: server closed the connection unexpectedly'',
      NL # ''Troubleshooting tips:'',
      ''- Ensure SSH or SSM tunnel is active'',
      ''- Verify tunnel is forwarding to 127.0.0.1:5432'',
      ''- Check that auth token is valid and not expired''] \<and>
   snd (main example_environ
        (example_world\<lparr>conn_exit := Some (Exn OperationalError ''server closed the connection unexpectedly'')\<rparr>)) = 1"
proof -
  let ?lib = "example_world\<lparr>conn_exit := Some (Exn OperationalError ''server closed the connection unexpectedly'')\<rparr>"
  have "stdout (fst (main example_environ ?lib)) =
     [''AWS DSQL Connectivity Test - Python Implementation'', replicate 50 (CHR ''=''),
      ''Reading environment variables...'',
      ''Connecting to DSQL cluster: db.internal.example'',
      ''Via tunnel: 127.0.0.1:5432'',
      NL # ''Establishing connection...'',
      ''Connection established successfully!'',
      ''Executing connection info query...''] @ info_block example_row ''db.internal.example'' @ []"
    by (simp add: run_defs example_world_def example_config info_block_def) (simp add: example_params_def)
  then have "sublist (info_block example_row ''db.internal.example'') (stdout (fst (main example_environ ?lib)))"
    by (simp only: sublist_appendI)
  then show ?thesis
    by (simp add: run_defs example_world_def example_config)
qed

text \<open>
  C9. On the success path the standard output is the eighteen lines below, for every
  value of PGHOSTADDR: that value occurs in the progress line \<^verbatim>\<open>Via tunnel\<close> only,
  and the \<^verbatim>\<open>Host\<close> line of the info block is the literal 127.0.0.1 annotated with
  the hostname.
\<close>

theorem info_block_host_line:
  assumes "environ ''HOSTNAME'' = Some h" and "h \<noteq> []"
    and "environ ''PGHOSTADDR'' = Some a" and "a \<noteq> []"
    and "environ ''PGPASSWORD'' = Some p" and "p \<noteq> []"
    and "environ ''PGSSLMODE'' = Some m" and "m \<noteq> []"
    and "validate_hostname h = Inr h'"
    and "m \<in> {''require'', ''prefer'', ''allow'', ''disable''}"
    and "connect_result lib = None" and "cursor_result lib = None"
    and "execute_result lib = None" and "fetchone_result lib = Inr (Some r)"
    and "cursor_exit lib = None" and "conn_exit lib = None"
  shows "stdout (fst (main environ lib)) =
     [''AWS DSQL Connectivity Test - Python Implementation'', replicate 50 (CHR ''=''),
      ''Reading environment variables...'',
      ''Connecting to DSQL cluster: '' @ h,
      ''Via tunnel: '' @ a @ '':5432'',
      NL # ''Establishing connection...'',
      ''Connection established successfully!'',
      ''Executing connection info query...'',
      NL # ''Connection Information:'',
      replicate 30 (CHR ''-''),
      ''Database: '' @ row_database r,
      ''User: '' @ row_user r,
      ''Host: 127.0.0.1 (via tunnel to '' @ h @ '')'',
      ''Port: 5432'',
      ''SSL Status: SSL connection (required by DSQL)'',
      ''Server Version: '' @ row_server_version r,
      NL # ''Connection closed successfully!'',
      ''DSQL connectivity test completed.'']"
proof -
  have "get_connection_config (set_order lib) environ =
           Inr (\<lparr>host = h, hostaddr = a, port = 5432, database = ''postgres'',
                 user = ''admin'', password = p, sslmode = m, connect_timeout = 30\<rparr>, h)"
    using get_connection_config_present [OF assms(1-8), of "set_order lib"] assms(9,10)
    by (auto simp: validate_ssl_mode_def valid_modes_def)
  then show ?thesis
    using assms(11-16) by (simp add: run_defs)
qed

theorem info_block_host_line_witness:
  "stdout (fst (main (example_environ(''PGHOSTADDR'' \<mapsto> ''10.0.0.7'')) example_world)) =
     [''AWS DSQL Connectivity Test - Python Implementation'', replicate 50 (CHR ''=''),
      ''Reading environment variables...'',
      ''Connecting to DSQL cluster: db.internal.example'',
      ''Via tunnel: 10.0.0.7:5432'',
      NL # ''Establishing connection...'',
      ''Connection established successfully!'',
      ''Executing connection info query...'',
      NL # ''Connection Information:'',
      replicate 30 (CHR ''-''),
      ''Database: postgres'',
      ''User: admin'',
      ''Host: 127.0.0.1 (via tunnel to db.internal.example)'',
      ''Port: 5432'',
      ''SSL Status: SSL connection (required by DSQL)'',
      ''Server Version: PostgreSQL 15.0'',
      NL # ''Connection closed successfully!'',
      ''DSQL connectivity test completed.'']"
  using info_block_host_line [of "example_environ(''PGHOSTADDR'' \<mapsto> ''10.0.0.7'')"
      "''db.internal.example''" "''10.0.0.7''" "''token123''" "''require''" "''db.internal.example''"
      example_world example_row]
  by (simp add: example_environ_def example_world_def example_row_def validate_hostname_example)

text \<open>
  C10. The first variable of HOSTNAME, PGHOSTADDR, PGPASSWORD, PGSSLMODE that is absent
  or empty is the one reported, whatever the other values are; when all four are set, a
  hostname that fails validation is reported whatever the SSL mode is; the SSL mode is
  reported only when the hostname passed. Every failure of the configuration is a
  \<^verbatim>\<open>ValueError\<close>, and the run then prints \<^verbatim>\<open>Configuration Error\<close> with its
  message, followed by the same list of the four variables, without any call into the
  database library, and exits with status 1.
\<close>

theorem configuration_error_priority:
  "(find (is_missing environ) required_vars = Some v \<longrightarrow>
      get_connection_config order environ =
        Inl (Exn ValueError (''Required environment variable '' @ v @ '' is not set''))) \<and>
   (find (is_missing environ) required_vars = None \<and> environ ''HOSTNAME'' = Some h \<and>
    validate_hostname h = Inl e \<longrightarrow>
      get_connection_config order environ = Inl e) \<and>
   (find (is_missing environ) required_vars = None \<and> environ ''HOSTNAME'' = Some h \<and>
    validate_hostname h = Inr h' \<and> environ ''PGSSLMODE'' = Some m \<and>
    validate_ssl_mode order m = Inl e \<longrightarrow>
      get_connection_config order environ = Inl e) \<and>
   (get_connection_config (set_order lib) environ = Inl e \<longrightarrow>
      (\<exists>msg. e = Exn ValueError msg \<and>
         main environ lib =
           (\<lparr>stdout = [''AWS DSQL Connectivity Test - Python Implementation'',
                       replicate 50 (CHR ''=''), ''Reading environment variables...''],
             stderr = [''Configuration Error: '' @ msg,
                       NL # ''Required environment variables:'',
                       ''- HOSTNAME: DSQL cluster private DNS endpoint'',
                       ''- PGHOSTADDR: Tunnel localhost address (127.0.0.1)'',
                       ''- PGPASSWORD: Generated auth token'',
                       ''- PGSSLMODE: SSL mode (require)''],
             calls = []\<rparr>, 1)))"
proof -
  have present: "\<exists>h a p m. environ ''HOSTNAME'' = Some h \<and> h \<noteq> [] \<and>
      environ ''PGHOSTADDR'' = Some a \<and> a \<noteq> [] \<and> environ ''PGPASSWORD'' = Some p \<and> p \<noteq> [] \<and>
      environ ''PGSSLMODE'' = Some m \<and> m \<noteq> []"
    if "find (is_missing environ) required_vars = None"
  proof -
    from that have "\<forall>v \<in> set required_vars. \<not> is_missing environ v"
      by (simp add: find_None_iff)
    then show ?thesis by (auto simp: required_vars_def is_missing_def)
  qed
  have p1: "find (is_missing environ) required_vars = Some v \<longrightarrow>
      get_connection_config order environ =
        Inl (Exn ValueError (''Required environment variable '' @ v @ '' is not set''))"
    using get_connection_config_missing [of environ v order] by (simp add: not_set_def)
  have p2: "find (is_missing environ) required_vars = None \<and> environ ''HOSTNAME'' = Some h \<and>
    validate_hostname h = Inl e \<longrightarrow> get_connection_config order environ = Inl e"
  proof
    assume a: "find (is_missing environ) required_vars = None \<and> environ ''HOSTNAME'' = Some h \<and>
      validate_hostname h = Inl e"
    then have "find (is_missing environ) required_vars = None" by (rule conjunct1)
    from present [OF this] obtain h0 a0 p0 m0 where pr:
      "environ ''HOSTNAME'' = Some h0" "h0 \<noteq> []" "environ ''PGHOSTADDR'' = Some a0" "a0 \<noteq> []"
      "environ ''PGPASSWORD'' = Some p0" "p0 \<noteq> []" "environ ''PGSSLMODE'' = Some m0" "m0 \<noteq> []"
      by (elim exE conjE)
    from get_connection_config_present [OF pr, of order] a pr(1,7)
    show "get_connection_config order environ = Inl e" by simp
  qed
  have p3: "find (is_missing environ) required_vars = None \<and> environ ''HOSTNAME'' = Some h \<and>
    validate_hostname h = Inr h' \<and> environ ''PGSSLMODE'' = Some m \<and>
    validate_ssl_mode order m = Inl e \<longrightarrow> get_connection_config order environ = Inl e"
  proof
    assume a: "find (is_missing environ) required_vars = None \<and> environ ''HOSTNAME'' = Some h \<and>
      validate_hostname h = Inr h' \<and> environ ''PGSSLMODE'' = Some m \<and>
      validate_ssl_mode order m = Inl e"
    then have "find (is_missing environ) required_vars = None" by (rule conjunct1)
    from present [OF this] obtain h0 a0 p0 m0 where pr:
      "environ ''HOSTNAME'' = Some h0" "h0 \<noteq> []" "environ ''PGHOSTADDR'' = Some a0" "a0 \<noteq> []"
      "environ ''PGPASSWORD'' = Some p0" "p0 \<noteq> []" "environ ''PGSSLMODE'' = Some m0" "m0 \<noteq> []"
      by (elim exE conjE)
    from get_connection_config_present [OF pr, of order] a pr(1,7)
    show "get_connection_config order environ = Inl e" by simp
  qed
  have p4: "get_connection_config (set_order lib) environ = Inl e \<longrightarrow>
      (\<exists>msg. e = Exn ValueError msg \<and>
         main environ lib =
           (\<lparr>stdout = [''AWS DSQL Connectivity Test - Python Implementation'',
                       replicate 50 (CHR ''=''), ''Reading environment variables...''],
             stderr = [''Configuration Error: '' @ msg,
                       NL # ''Required environment variables:'',
                       ''- HOSTNAME: DSQL cluster private DNS endpoint'',
                       ''- PGHOSTADDR: Tunnel localhost address (127.0.0.1)'',
                       ''- PGPASSWORD: Generated auth token'',
                       ''- PGSSLMODE: SSL mode (require)''],
             calls = []\<rparr>, 1))"
    using get_connection_config_error_class [of "set_order lib" environ e] main_config_error [of lib environ]
    by blast
  from p1 p2 p3 p4 show ?thesis by blast
qed

theorem configuration_error_priority_witness:
  "main (example_environ(''HOSTNAME'' \<mapsto> ''host name;drop'', ''PGHOSTADDR'' \<mapsto> '''',
                          ''PGSSLMODE'' := None)) example_world =
     (\<lparr>stdout = [''AWS DSQL Connectivity Test - Python Implementation'',
                 replicate 50 (CHR ''=''), ''Reading environment variables...''],
       stderr = [''Configuration Error: Required environment variable PGHOSTADDR is not set'',
                 NL # ''Required environment variables:'',
                 ''- HOSTNAME: DSQL cluster private DNS endpoint'',
                 ''- PGHOSTADDR: Tunnel localhost address (127.0.0.1)'',
                 ''- PGPASSWORD: Generated auth token'',
                 ''- PGSSLMODE: SSL mode (require)''],
       calls = []\<rparr>, 1) \<and>
   get_connection_config (set_order example_world)
       (example_environ(''HOSTNAME'' \<mapsto> ''host name;drop'', ''PGSSLMODE'' \<mapsto> ''verify-full'')) =
     Inl (Exn ValueError ''Invalid hostname format: host name;drop'')"
proof -
  let ?e1 = "example_environ(''HOSTNAME'' \<mapsto> ''host name;drop'', ''PGHOSTADDR'' \<mapsto> '''',
                          ''PGSSLMODE'' := None)"
  let ?e2 = "example_environ(''HOSTNAME'' \<mapsto> ''host name;drop'', ''PGSSLMODE'' \<mapsto> ''verify-full'')"
  let ?x1 = "Exn ValueError ''Required environment variable PGHOSTADDR is not set''"
  let ?x2 = "Exn ValueError ''Invalid hostname format: host name;drop''"
  note t1 = configuration_error_priority [of ?e1 "''PGHOSTADDR''" "set_order example_world"
      "''host name;drop''" ?x1 "''host name;drop''" "''''" example_world]
  note t2 = configuration_error_priority [of ?e2 "''PGHOSTADDR''" "set_order example_world"
      "''host name;drop''" ?x2 "''host name;drop''" "''verify-full''" example_world]
  have f1: "find (is_missing ?e1) required_vars = Some ''PGHOSTADDR''"
    by (simp add: required_vars_def is_missing_def example_environ_def)
  have f2: "find (is_missing ?e2) required_vars = None"
    by (simp add: required_vars_def is_missing_def example_environ_def)
  have v: "validate_hostname ''host name;drop'' = Inl ?x2"
    by (simp add: validate_hostname_def re_match_hostname_def hostname_char_def in_range_def)
  from t1 f1 have "get_connection_config (set_order example_world) ?e1 = Inl ?x1"
    by simp
  with t1 have a: "main ?e1 example_world =
     (\<lparr>stdout = [''AWS DSQL Connectivity Test - Python Implementation'',
                 replicate 50 (CHR ''=''), ''Reading environment variables...''],
       stderr = [''Configuration Error: Required environment variable PGHOSTADDR is not set'',
                 NL # ''Required environment variables:'',
                 ''- HOSTNAME: DSQL cluster private DNS endpoint'',
                 ''- PGHOSTADDR: Tunnel localhost address (127.0.0.1)'',
                 ''- PGPASSWORD: Generated auth token'',
                 ''- PGSSLMODE: SSL mode (require)''],
       calls = []\<rparr>, 1)"
    by simp
  from t2 f2 v have b: "get_connection_config (set_order example_world) ?e2 = Inl ?x2"
    by (simp add: example_environ_def)
  from a b show ?thesis by blast
qed

end
